theory Spec2Isabelle
  imports Complex_Main "HOL-Library.Word"
begin

section \<open>Go values used by pkg/logger\<close>

text \<open>
  \<open>time.Duration\<close> is an \<open>int64\<close> count of nanoseconds; Go's \<open>int\<close> is taken at its
  64-bit width. The package only compares these values with zero and stores constants
  in them. The unit constants follow package \<open>time\<close>.
\<close>

type_synonym Duration = "64 word"

type_synonym go_int = "64 word"

type_synonym Time = int

definition Nanosecond :: Duration where
  "Nanosecond = 1"

definition Microsecond :: Duration where
  "Microsecond = 1000 * Nanosecond"

definition Millisecond :: Duration where
  "Millisecond = 1000 * Microsecond"

definition Second :: Duration where
  "Second = 1000 * Millisecond"

text \<open>
  An \<open>error\<close> value is either a plain message (\<open>errors.New\<close>, or whatever a library
  returns) or \<open>fmt.Errorf(prefix + "%w", err)\<close>, which wraps \<open>err\<close>.
\<close>

datatype error = errors_New string | fmt_Errorf_w string error

fun Unwrap :: "error \<Rightarrow> error option" where
  "Unwrap (errors_New m) = None"
| "Unwrap (fmt_Errorf_w p e) = Some e"

datatype Context = Context nat

section \<open>The configuration (logger.go, lines 24-42)\<close>

record Config =
  Endpoint :: string
  Insecure :: bool
  ServiceName :: string
  ServiceVer :: string
  Environment :: string
  LogLevel :: string
  EnableStdout :: bool
  DialTimeout :: Duration
  ExportInterval :: Duration
  MaxQueueSize :: go_int

section \<open>Objects of the telemetry and RPC libraries\<close>

text \<open>
  The libraries are outside the repository. Every object they build is represented by
  the constructor call that built it, with the arguments \<open>InitLogs\<close> passed, so that
  what \<open>InitLogs\<close> hands to the libraries can be read off the result.
\<close>

datatype KeyValue = attribute_String string string

definition semconv_ServiceName :: "string \<Rightarrow> KeyValue" where
  "semconv_ServiceName v = attribute_String ''service.name'' v"

definition semconv_ServiceVersion :: "string \<Rightarrow> KeyValue" where
  "semconv_ServiceVersion v = attribute_String ''service.version'' v"

datatype resource_Option =
    WithFromEnv
  | WithHost
  | WithTelemetrySDK
  | WithAttributes "KeyValue list"

datatype Resource = Resource Context "resource_Option list"

record backoff_Config =
  BaseDelay :: Duration
  Multiplier :: rat
  MaxDelay :: Duration

record ConnectParams =
  Backoff :: backoff_Config
  MinConnectTimeout :: Duration

text \<open>
  Transport credentials of the RPC library: the insecure ones of \<open>credentials/insecure\<close>,
  the only ones the package builds, and TLS credentials, which a caller would have to
  build (the comment on \<open>Insecure\<close>, line 27).
\<close>

datatype TransportCredentials = insecure_NewCredentials | credentials_NewTLS

datatype DialOption =
    WithBlock
  | WithConnectParams ConnectParams
  | WithTransportCredentials TransportCredentials

datatype logexp_Option =
    WithEndpoint string
  | WithDialOption "DialOption list"

datatype stdoutlog_Option = WithPrettyPrint

datatype Exporter =
    logexp_Exporter Context "logexp_Option list"
  | stdoutlog_Exporter "stdoutlog_Option list"

datatype BatchProcessorOption =
    WithExportInterval Duration
  | WithMaxQueueSize go_int

datatype Processor =
    NewBatchProcessor Exporter "BatchProcessorOption list"
  | NewSimpleProcessor Exporter

datatype LoggerProviderOption =
    WithResource Resource
  | WithProcessor Processor

text \<open>
  The process-wide provider of \<open>log/global\<close> is either the one the library starts
  with or a provider built by \<open>sdklog.NewLoggerProvider\<close>.
\<close>

datatype LoggerProvider =
    default_LoggerProvider
  | NewLoggerProvider "LoggerProviderOption list"

datatype shutdown = Shutdown LoggerProvider

datatype otellog_Logger = provider_Logger LoggerProvider string

section \<open>Log records (otellog.Record)\<close>

datatype Severity =
    SeverityUndefined
  | SeverityDebug
  | SeverityInfo
  | SeverityWarn
  | SeverityError

datatype Value =
    EmptyValue
  | StringValue string
  | Int64Value "64 word"
  | BoolValue bool

datatype otellog_KeyValue = otellog_KeyValue string Value

record Record =
  timestamp :: Time
  severity :: Severity
  body :: Value
  attributes :: "otellog_KeyValue list"

definition zero_Record :: Record where
  "zero_Record = \<lparr>timestamp = 0, severity = SeverityUndefined, body = EmptyValue, attributes = []\<rparr>"

definition SetTimestamp :: "Record \<Rightarrow> Time \<Rightarrow> Record" where
  "SetTimestamp r t = r\<lparr>timestamp := t\<rparr>"

definition SetSeverity :: "Record \<Rightarrow> Severity \<Rightarrow> Record" where
  "SetSeverity r v = r\<lparr>severity := v\<rparr>"

definition SetBody :: "Record \<Rightarrow> Value \<Rightarrow> Record" where
  "SetBody r v = r\<lparr>body := v\<rparr>"

definition AddAttributes :: "Record \<Rightarrow> otellog_KeyValue list \<Rightarrow> Record" where
  "AddAttributes r kvs = r\<lparr>attributes := attributes r @ kvs\<rparr>"

section \<open>The process state and the outside world\<close>

text \<open>
  The calls \<open>pkg/logger\<close> makes that read or change something outside the function:
  the environment, the fallible library constructors, the global provider and the
  \<open>Emit\<close> method of a logger handle. The state keeps them in call order.
\<close>

datatype call =
    Getenv string
  | resource_New Context "resource_Option list"
  | logexp_New Context "logexp_Option list"
  | stdoutlog_New "stdoutlog_Option list"
  | SetLoggerProvider LoggerProvider
  | Emit otellog_Logger Context Record

record state =
  global_provider :: LoggerProvider
  calls :: "call list"

text \<open>
  What the outside answers: the environment variables, whether each library
  constructor reports an error for the arguments it is given, and the reading of the
  wall clock.
\<close>

record world =
  os_Getenv :: "string \<Rightarrow> string"
  resource_New_err :: "Context \<Rightarrow> resource_Option list \<Rightarrow> error option"
  logexp_New_err :: "Context \<Rightarrow> logexp_Option list \<Rightarrow> error option"
  stdoutlog_New_err :: "stdoutlog_Option list \<Rightarrow> error option"
  time_Now :: Time

definition init_state :: state where
  "init_state = \<lparr>global_provider = default_LoggerProvider, calls = []\<rparr>"

definition record_call :: "call \<Rightarrow> state \<Rightarrow> state" where
  "record_call c s = s\<lparr>calls := calls s @ [c]\<rparr>"

definition new_calls :: "state \<Rightarrow> state \<Rightarrow> call list" where
  "new_calls s s' = drop (length (calls s)) (calls s')"

section \<open>InitLogs (logger.go, lines 46-143)\<close>

text \<open>Lines 51-66: the endpoint fallback and the defaults of the three tunables.\<close>

definition resolve_defaults :: "world \<Rightarrow> Config \<Rightarrow> state \<Rightarrow> Config \<times> state" where
  "resolve_defaults w cfg s =
    (let (cfg, s) =
       (if Endpoint cfg = [] then
          let s = record_call (Getenv ''OTEL_EXPORTER_OTLP_ENDPOINT'') s;
              cfg = cfg\<lparr>Endpoint := os_Getenv w ''OTEL_EXPORTER_OTLP_ENDPOINT''\<rparr>;
              cfg = (if Endpoint cfg = [] then cfg\<lparr>Endpoint := ''localhost:4317''\<rparr> else cfg)
          in (cfg, s)
        else (cfg, s));
       cfg = (if DialTimeout cfg = 0 then cfg\<lparr>DialTimeout := 10 * Second\<rparr> else cfg);
       cfg = (if ExportInterval cfg = 0 then cfg\<lparr>ExportInterval := 2 * Second\<rparr> else cfg);
       cfg = (if MaxQueueSize cfg = 0 then cfg\<lparr>MaxQueueSize := 4096\<rparr> else cfg)
     in (cfg, s))"

text \<open>Lines 69-79: the options of \<open>resource.New\<close>.\<close>

definition resource_options :: "Config \<Rightarrow> resource_Option list" where
  "resource_options cfg =
    [WithFromEnv, WithHost, WithTelemetrySDK,
     WithAttributes
       [semconv_ServiceName (ServiceName cfg),
        semconv_ServiceVersion (ServiceVer cfg),
        attribute_String ''deployment.environment'' (Environment cfg),
        attribute_String ''deployment.log_level'' (LogLevel cfg)]]"

text \<open>Lines 84-98: the backoff policy and the dial options.\<close>

definition dial_options :: "Config \<Rightarrow> DialOption list" where
  "dial_options cfg =
    (let bo = \<lparr>BaseDelay = 500 * Millisecond, Multiplier = 1.6, MaxDelay = 5 * Second\<rparr>;
         dialOpts = [WithBlock,
                     WithConnectParams \<lparr>Backoff = bo, MinConnectTimeout = DialTimeout cfg\<rparr>]
     in if Insecure cfg
        then dialOpts @ [WithTransportCredentials insecure_NewCredentials]
        else dialOpts)"

text \<open>Lines 101-104: the options of \<open>logexp.New\<close>.\<close>

definition exporter_options :: "Config \<Rightarrow> logexp_Option list" where
  "exporter_options cfg = [WithEndpoint (Endpoint cfg), WithDialOption (dial_options cfg)]"

text \<open>Lines 131-142: the provider is assembled, installed globally and its shutdown returned.\<close>

definition install_provider :: "Resource \<Rightarrow> Processor list \<Rightarrow> state \<Rightarrow> (error + shutdown) \<times> state" where
  "install_provider res processors s =
    (let lpOptions = fold (\<lambda>processor opts. opts @ [WithProcessor processor]) processors
                       [WithResource res];
         lp = NewLoggerProvider lpOptions;
         s = record_call (SetLoggerProvider lp) (s\<lparr>global_provider := lp\<rparr>)
     in (Inr (Shutdown lp), s))"

text \<open>Lines 68-142: everything after the defaults, run on the resolved configuration.\<close>

definition build :: "world \<Rightarrow> Context \<Rightarrow> Config \<Rightarrow> state \<Rightarrow> (error + shutdown) \<times> state" where
  "build w ctx cfg s =
    (let s = record_call (resource_New ctx (resource_options cfg)) s in
     case resource_New_err w ctx (resource_options cfg) of
       Some err \<Rightarrow> (Inl (fmt_Errorf_w ''resource: '' err), s)
     | None \<Rightarrow>
        (let res = Resource ctx (resource_options cfg);
             s = record_call (logexp_New ctx (exporter_options cfg)) s
         in case logexp_New_err w ctx (exporter_options cfg) of
              Some err \<Rightarrow> (Inl (fmt_Errorf_w ''otlp log exporter: '' err), s)
            | None \<Rightarrow>
               (let otlpExp = logexp_Exporter ctx (exporter_options cfg);
                    otlpProcessor = NewBatchProcessor otlpExp
                      [WithExportInterval (ExportInterval cfg),
                       WithMaxQueueSize (MaxQueueSize cfg)];
                    processors = [otlpProcessor]
                in if EnableStdout cfg then
                     (let s = record_call (stdoutlog_New [WithPrettyPrint]) s in
                      case stdoutlog_New_err w [WithPrettyPrint] of
                        Some err \<Rightarrow> (Inl (fmt_Errorf_w ''stdout log exporter: '' err), s)
                      | None \<Rightarrow>
                         (let stdoutExp = stdoutlog_Exporter [WithPrettyPrint];
                              stdoutProcessor = NewSimpleProcessor stdoutExp
                          in install_provider res (processors @ [stdoutProcessor]) s))
                   else install_provider res processors s)))"

definition InitLogs :: "world \<Rightarrow> Context \<Rightarrow> Config \<Rightarrow> state \<Rightarrow> (error + shutdown) \<times> state" where
  "InitLogs w ctx cfg s =
    (if ServiceName cfg = [] then
       (Inl (errors_New ''telemetry: ServiceName is required''), s)
     else
       (let (cfg, s) = resolve_defaults w cfg s in build w ctx cfg s))"

section \<open>Logger and the emitters (logger.go, lines 146-193)\<close>

definition Logger :: "state \<Rightarrow> string \<Rightarrow> otellog_Logger" where
  "Logger s name = provider_Logger (global_provider s) name"

definition Info :: "world \<Rightarrow> Context \<Rightarrow> otellog_Logger \<Rightarrow> string \<Rightarrow> otellog_KeyValue list \<Rightarrow> state \<Rightarrow> state" where
  "Info w ctx l msg attrs s =
    (let r = zero_Record;
         r = SetTimestamp r (time_Now w);
         r = SetSeverity r SeverityInfo;
         r = SetBody r (StringValue msg);
         r = fold (\<lambda>a r. AddAttributes r [a]) attrs r
     in record_call (Emit l ctx r) s)"

definition Error :: "world \<Rightarrow> Context \<Rightarrow> otellog_Logger \<Rightarrow> string \<Rightarrow> otellog_KeyValue list \<Rightarrow> state \<Rightarrow> state" where
  "Error w ctx l msg attrs s =
    (let r = zero_Record;
         r = SetTimestamp r (time_Now w);
         r = SetSeverity r SeverityError;
         r = SetBody r (StringValue msg);
         r = fold (\<lambda>a r. AddAttributes r [a]) attrs r
     in record_call (Emit l ctx r) s)"

definition Warn :: "world \<Rightarrow> Context \<Rightarrow> otellog_Logger \<Rightarrow> string \<Rightarrow> otellog_KeyValue list \<Rightarrow> state \<Rightarrow> state" where
  "Warn w ctx l msg attrs s =
    (let r = zero_Record;
         r = SetTimestamp r (time_Now w);
         r = SetSeverity r SeverityWarn;
         r = SetBody r (StringValue msg);
         r = fold (\<lambda>a r. AddAttributes r [a]) attrs r
     in record_call (Emit l ctx r) s)"

definition Debug :: "world \<Rightarrow> Context \<Rightarrow> otellog_Logger \<Rightarrow> string \<Rightarrow> otellog_KeyValue list \<Rightarrow> state \<Rightarrow> state" where
  "Debug w ctx l msg attrs s =
    (let r = zero_Record;
         r = SetTimestamp r (time_Now w);
         r = SetSeverity r SeverityDebug;
         r = SetBody r (StringValue msg);
         r = fold (\<lambda>a r. AddAttributes r [a]) attrs r
     in record_call (Emit l ctx r) s)"

section \<open>Observations on the state\<close>

text \<open>Whether a recorded constructor call is one the outside answered with an error.\<close>

fun failed :: "world \<Rightarrow> call \<Rightarrow> bool" where
  "failed w (resource_New ctx opts) = (resource_New_err w ctx opts \<noteq> None)"
| "failed w (logexp_New ctx opts) = (logexp_New_err w ctx opts \<noteq> None)"
| "failed w (stdoutlog_New opts) = (stdoutlog_New_err w opts \<noteq> None)"
| "failed w (Getenv n) = False"
| "failed w (SetLoggerProvider lp) = False"
| "failed w (Emit l ctx r) = False"

text \<open>The environment read of lines 51-57, as the calls it leaves in the state.\<close>

definition endpoint_lookup :: "Config \<Rightarrow> call list" where
  "endpoint_lookup cfg =
    (if Endpoint cfg = [] then [Getenv ''OTEL_EXPORTER_OTLP_ENDPOINT''] else [])"

text \<open>The two processors of lines 110-113 and 119-127, for a resolved configuration.\<close>

definition batch_processor :: "Context \<Rightarrow> Config \<Rightarrow> Processor" where
  "batch_processor ctx cfg =
    NewBatchProcessor (logexp_Exporter ctx (exporter_options cfg))
      [WithExportInterval (ExportInterval cfg), WithMaxQueueSize (MaxQueueSize cfg)]"

definition stdout_processor :: Processor where
  "stdout_processor = NewSimpleProcessor (stdoutlog_Exporter [WithPrettyPrint])"

fun is_SetLoggerProvider :: "call \<Rightarrow> bool" where
  "is_SetLoggerProvider (SetLoggerProvider lp) = True"
| "is_SetLoggerProvider c = False"

text \<open>The processors a provider was given, in the order of its options.\<close>

fun option_processors :: "LoggerProviderOption \<Rightarrow> Processor list" where
  "option_processors (WithProcessor p) = [p]"
| "option_processors (WithResource r) = []"

fun provider_processors :: "LoggerProvider \<Rightarrow> Processor list" where
  "provider_processors default_LoggerProvider = []"
| "provider_processors (NewLoggerProvider opts) = concat (map option_processors opts)"



text \<open>
  A run of the process: it starts with the library's default provider and no call made,
  and each step is one call of a state-changing function of the package.
\<close>

datatype op =
    OpInitLogs world Context Config
  | OpInfo world Context otellog_Logger string "otellog_KeyValue list"
  | OpError world Context otellog_Logger string "otellog_KeyValue list"
  | OpWarn world Context otellog_Logger string "otellog_KeyValue list"
  | OpDebug world Context otellog_Logger string "otellog_KeyValue list"

fun is_OpInitLogs :: "op \<Rightarrow> bool" where
  "is_OpInitLogs (OpInitLogs w ctx cfg) = True"
| "is_OpInitLogs x = False"

fun step :: "op \<Rightarrow> state \<Rightarrow> state" where
  "step (OpInitLogs w ctx cfg) s = snd (InitLogs w ctx cfg s)"
| "step (OpInfo w ctx l msg attrs) s = Info w ctx l msg attrs s"
| "step (OpError w ctx l msg attrs) s = Error w ctx l msg attrs s"
| "step (OpWarn w ctx l msg attrs) s = Warn w ctx l msg attrs s"
| "step (OpDebug w ctx l msg attrs) s = Debug w ctx l msg attrs s"

definition run :: "op list \<Rightarrow> state \<Rightarrow> state" where
  "run ops s = fold step ops s"

section \<open>The defaulting policy in the specification's words\<close>

text \<open>
  Specification 4.1: endpoint is the explicit value, else the environment variable, else
  \<open>localhost:4317\<close>; dial timeout is the explicit value, else 10s; export interval is
  the explicit value, else 2s; max queue size is the explicit value, else 4096.
\<close>

definition spec_endpoint :: "world \<Rightarrow> Config \<Rightarrow> string" where
  "spec_endpoint w cfg =
    (if Endpoint cfg \<noteq> [] then Endpoint cfg
     else if os_Getenv w ''OTEL_EXPORTER_OTLP_ENDPOINT'' \<noteq> []
          then os_Getenv w ''OTEL_EXPORTER_OTLP_ENDPOINT''
          else ''localhost:4317'')"

definition spec_dial_timeout :: "Config \<Rightarrow> Duration" where
  "spec_dial_timeout cfg = (if DialTimeout cfg = 0 then 10 * Second else DialTimeout cfg)"

definition spec_export_interval :: "Config \<Rightarrow> Duration" where
  "spec_export_interval cfg = (if ExportInterval cfg = 0 then 2 * Second else ExportInterval cfg)"

definition spec_max_queue_size :: "Config \<Rightarrow> go_int" where
  "spec_max_queue_size cfg = (if MaxQueueSize cfg = 0 then 4096 else MaxQueueSize cfg)"

definition spec_resolved :: "world \<Rightarrow> Config \<Rightarrow> Config" where
  "spec_resolved w cfg =
    cfg\<lparr>Endpoint := spec_endpoint w cfg,
        DialTimeout := spec_dial_timeout cfg,
        ExportInterval := spec_export_interval cfg,
        MaxQueueSize := spec_max_queue_size cfg\<rparr>"

section \<open>Library behaviour taken from the specification\<close>


text \<open>
  Modelled from the spec: the \<open>Emit\<close> method of a logger handle is code of the telemetry
  library, missing from the repository. Specification 3 and 4.2: a record is fanned out
  to all processors attached to the handle's provider, and the provider the library
  starts with is a no-operation implementation, with no processor to fail or wait on.
  The result lists which processor receives which record.
\<close>

definition Logger_Emit :: "otellog_Logger \<Rightarrow> Context \<Rightarrow> Record \<Rightarrow> (Processor \<times> Record) list" where
  "Logger_Emit l ctx r =
    (case l of provider_Logger p name \<Rightarrow> map (\<lambda>q. (q, r)) (provider_processors p))"

section \<open>Concrete inputs\<close>

text \<open>
  A development configuration that leaves the endpoint and the three tunables unset, and
  four worlds: one where every library call succeeds and the environment names a
  collector, and one for each library constructor reporting an error.
\<close>

definition cfg_demo :: Config where
  "cfg_demo =
    \<lparr>Endpoint = [], Insecure = True, ServiceName = ''api'', ServiceVer = ''1.0'',
     Environment = ''dev'', LogLevel = ''info'', EnableStdout = True,
     DialTimeout = 0, ExportInterval = 0, MaxQueueSize = 0\<rparr>"

definition world_ok :: world where
  "world_ok =
    \<lparr>os_Getenv = (\<lambda>n. if n = ''OTEL_EXPORTER_OTLP_ENDPOINT'' then ''collector:4317'' else []),
     resource_New_err = (\<lambda>ctx opts. None),
     logexp_New_err = (\<lambda>ctx opts. None),
     stdoutlog_New_err = (\<lambda>opts. None),
     time_Now = 1700000000\<rparr>"

definition world_bad_resource :: world where
  "world_bad_resource =
    world_ok\<lparr>resource_New_err := (\<lambda>ctx opts. Some (errors_New ''missing value''))\<rparr>"

definition world_no_collector :: world where
  "world_no_collector =
    world_ok\<lparr>logexp_New_err := (\<lambda>ctx opts. Some (errors_New ''context deadline exceeded''))\<rparr>"

definition world_no_stdout :: world where
  "world_no_stdout =
    world_ok\<lparr>stdoutlog_New_err := (\<lambda>opts. Some (errors_New ''encoder''))\<rparr>"

definition cfg_negative :: Config where
  "cfg_negative = cfg_demo\<lparr>DialTimeout := - 5, ExportInterval := - 1, MaxQueueSize := - 7\<rparr>"

section \<open>Auxiliary facts\<close>

lemma fold_AddAttributes:
  "fold (\<lambda>a r. AddAttributes r [a]) attrs r = r\<lparr>attributes := attributes r @ attrs\<rparr>"
  by (induction attrs arbitrary: r) (simp_all add: AddAttributes_def)

lemma resolve_defaults_eq:
  "resolve_defaults w cfg s =
    (spec_resolved w cfg,
     if Endpoint cfg = [] then record_call (Getenv ''OTEL_EXPORTER_OTLP_ENDPOINT'') s else s)"
  by (simp add: resolve_defaults_def spec_resolved_def spec_endpoint_def spec_dial_timeout_def
      spec_export_interval_def spec_max_queue_size_def Let_def)

lemma spec_resolved_simps:
  "Endpoint (spec_resolved w cfg) = spec_endpoint w cfg"
  "DialTimeout (spec_resolved w cfg) = spec_dial_timeout cfg"
  "ExportInterval (spec_resolved w cfg) = spec_export_interval cfg"
  "MaxQueueSize (spec_resolved w cfg) = spec_max_queue_size cfg"
  "ServiceName (spec_resolved w cfg) = ServiceName cfg"
  "ServiceVer (spec_resolved w cfg) = ServiceVer cfg"
  "Environment (spec_resolved w cfg) = Environment cfg"
  "LogLevel (spec_resolved w cfg) = LogLevel cfg"
  "Insecure (spec_resolved w cfg) = Insecure cfg"
  "EnableStdout (spec_resolved w cfg) = EnableStdout cfg"
  by (simp_all add: spec_resolved_def)

lemma resource_options_resolved:
  "resource_options (spec_resolved w cfg) = resource_options cfg"
  by (simp add: resource_options_def spec_resolved_simps)

lemma InitLogs_invalid:
  "ServiceName cfg = [] \<Longrightarrow>
   InitLogs w ctx cfg s = (Inl (errors_New ''telemetry: ServiceName is required''), s)"
  by (simp add: InitLogs_def)

lemma InitLogs_valid:
  "ServiceName cfg \<noteq> [] \<Longrightarrow>
   InitLogs w ctx cfg s =
     build w ctx (spec_resolved w cfg) (s\<lparr>calls := calls s @ endpoint_lookup cfg\<rparr>)"
  by (simp add: InitLogs_def resolve_defaults_eq endpoint_lookup_def record_call_def)

lemma build_resource_error:
  "resource_New_err w ctx (resource_options cfg) = Some e \<Longrightarrow>
   build w ctx cfg s =
     (Inl (fmt_Errorf_w ''resource: '' e),
      s\<lparr>calls := calls s @ [resource_New ctx (resource_options cfg)]\<rparr>)"
  by (simp add: build_def record_call_def)

lemma build_exporter_error:
  "resource_New_err w ctx (resource_options cfg) = None \<Longrightarrow>
   logexp_New_err w ctx (exporter_options cfg) = Some e \<Longrightarrow>
   build w ctx cfg s =
     (Inl (fmt_Errorf_w ''otlp log exporter: '' e),
      s\<lparr>calls := calls s @ [resource_New ctx (resource_options cfg),
          logexp_New ctx (exporter_options cfg)]\<rparr>)"
  by (simp add: build_def record_call_def Let_def)

lemma build_stdout_error:
  "resource_New_err w ctx (resource_options cfg) = None \<Longrightarrow>
   logexp_New_err w ctx (exporter_options cfg) = None \<Longrightarrow>
   EnableStdout cfg \<Longrightarrow> stdoutlog_New_err w [WithPrettyPrint] = Some e \<Longrightarrow>
   build w ctx cfg s =
     (Inl (fmt_Errorf_w ''stdout log exporter: '' e),
      s\<lparr>calls := calls s @ [resource_New ctx (resource_options cfg),
          logexp_New ctx (exporter_options cfg), stdoutlog_New [WithPrettyPrint]]\<rparr>)"
  by (simp add: build_def record_call_def Let_def)

lemma build_success_stdout:
  "resource_New_err w ctx (resource_options cfg) = None \<Longrightarrow>
   logexp_New_err w ctx (exporter_options cfg) = None \<Longrightarrow>
   EnableStdout cfg \<Longrightarrow> stdoutlog_New_err w [WithPrettyPrint] = None \<Longrightarrow>
   lp = NewLoggerProvider
         [WithResource (Resource ctx (resource_options cfg)),
          WithProcessor (batch_processor ctx cfg), WithProcessor stdout_processor] \<Longrightarrow>
   build w ctx cfg s =
     (Inr (Shutdown lp),
      \<lparr>global_provider = lp,
       calls = calls s @ [resource_New ctx (resource_options cfg),
          logexp_New ctx (exporter_options cfg),
          stdoutlog_New [WithPrettyPrint], SetLoggerProvider lp]\<rparr>)"
  by (simp add: build_def record_call_def Let_def install_provider_def batch_processor_def
      stdout_processor_def)

lemma build_success_plain:
  "resource_New_err w ctx (resource_options cfg) = None \<Longrightarrow>
   logexp_New_err w ctx (exporter_options cfg) = None \<Longrightarrow>
   \<not> EnableStdout cfg \<Longrightarrow>
   lp = NewLoggerProvider
         [WithResource (Resource ctx (resource_options cfg)),
          WithProcessor (batch_processor ctx cfg)] \<Longrightarrow>
   build w ctx cfg s =
     (Inr (Shutdown lp),
      \<lparr>global_provider = lp,
       calls = calls s @ [resource_New ctx (resource_options cfg),
          logexp_New ctx (exporter_options cfg), SetLoggerProvider lp]\<rparr>)"
  by (simp add: build_def record_call_def Let_def install_provider_def batch_processor_def)

text \<open>Every call of InitLogs takes exactly one of six paths.\<close>

lemma InitLogs_paths [case_names invalid resource_error exporter_error stdout_error
    installed_stdout installed_plain]:
  obtains
    "ServiceName cfg = []"
    "InitLogs w ctx cfg s = (Inl (errors_New ''telemetry: ServiceName is required''), s)"
  | e where "ServiceName cfg \<noteq> []"
    "resource_New_err w ctx (resource_options cfg) = Some e"
    "InitLogs w ctx cfg s =
       (Inl (fmt_Errorf_w ''resource: '' e),
        s\<lparr>calls := calls s @ endpoint_lookup cfg @ [resource_New ctx (resource_options cfg)]\<rparr>)"
  | e where "ServiceName cfg \<noteq> []"
    "resource_New_err w ctx (resource_options cfg) = None"
    "logexp_New_err w ctx (exporter_options (spec_resolved w cfg)) = Some e"
    "InitLogs w ctx cfg s =
       (Inl (fmt_Errorf_w ''otlp log exporter: '' e),
        s\<lparr>calls := calls s @ endpoint_lookup cfg @
           [resource_New ctx (resource_options cfg),
            logexp_New ctx (exporter_options (spec_resolved w cfg))]\<rparr>)"
  | e where "ServiceName cfg \<noteq> []"
    "resource_New_err w ctx (resource_options cfg) = None"
    "logexp_New_err w ctx (exporter_options (spec_resolved w cfg)) = None"
    "EnableStdout cfg"
    "stdoutlog_New_err w [WithPrettyPrint] = Some e"
    "InitLogs w ctx cfg s =
       (Inl (fmt_Errorf_w ''stdout log exporter: '' e),
        s\<lparr>calls := calls s @ endpoint_lookup cfg @
           [resource_New ctx (resource_options cfg),
            logexp_New ctx (exporter_options (spec_resolved w cfg)),
            stdoutlog_New [WithPrettyPrint]]\<rparr>)"
  | lp where "ServiceName cfg \<noteq> []"
    "resource_New_err w ctx (resource_options cfg) = None"
    "logexp_New_err w ctx (exporter_options (spec_resolved w cfg)) = None"
    "EnableStdout cfg"
    "stdoutlog_New_err w [WithPrettyPrint] = None"
    "lp = NewLoggerProvider
         [WithResource (Resource ctx (resource_options cfg)),
          WithProcessor (batch_processor ctx (spec_resolved w cfg)),
          WithProcessor stdout_processor]"
    "InitLogs w ctx cfg s =
       (Inr (Shutdown lp),
        \<lparr>global_provider = lp,
         calls = calls s @ endpoint_lookup cfg @
           [resource_New ctx (resource_options cfg),
            logexp_New ctx (exporter_options (spec_resolved w cfg)),
            stdoutlog_New [WithPrettyPrint], SetLoggerProvider lp]\<rparr>)"
  | lp where "ServiceName cfg \<noteq> []"
    "resource_New_err w ctx (resource_options cfg) = None"
    "logexp_New_err w ctx (exporter_options (spec_resolved w cfg)) = None"
    "\<not> EnableStdout cfg"
    "lp = NewLoggerProvider
         [WithResource (Resource ctx (resource_options cfg)),
          WithProcessor (batch_processor ctx (spec_resolved w cfg))]"
    "InitLogs w ctx cfg s =
       (Inr (Shutdown lp),
        \<lparr>global_provider = lp,
         calls = calls s @ endpoint_lookup cfg @
           [resource_New ctx (resource_options cfg),
            logexp_New ctx (exporter_options (spec_resolved w cfg)),
            SetLoggerProvider lp]\<rparr>)"
proof (cases "ServiceName cfg = []")
  case True
  then show ?thesis using that(1) InitLogs_invalid by blast
next
  case valid: False
  let ?cfg = "spec_resolved w cfg"
  let ?s = "s\<lparr>calls := calls s @ endpoint_lookup cfg\<rparr>"
  note run = InitLogs_valid [OF valid, of w ctx s]
  note ro = resource_options_resolved [of w cfg]
  show ?thesis
  proof (cases "resource_New_err w ctx (resource_options cfg)")
    case (Some e)
    with build_resource_error [of w ctx ?cfg e ?s] valid run ro that(2) [of e]
    show ?thesis by simp
  next
    case res: None
    show ?thesis
    proof (cases "logexp_New_err w ctx (exporter_options ?cfg)")
      case (Some e)
      with build_exporter_error [of w ctx ?cfg e ?s] valid run ro res that(3) [of e]
      show ?thesis by simp
    next
      case exp: None
      show ?thesis
      proof (cases "EnableStdout cfg")
        case False
        with build_success_plain [of w ctx ?cfg _ ?s] valid run ro res exp that(6)
        show ?thesis by (simp add: spec_resolved_simps)
      next
        case on: True
        show ?thesis
        proof (cases "stdoutlog_New_err w [WithPrettyPrint]")
          case (Some e)
          with build_stdout_error [of w ctx ?cfg e ?s] valid run ro res exp on that(4) [of e]
          show ?thesis by (simp add: spec_resolved_simps)
        next
          case None
          with build_success_stdout [of w ctx ?cfg _ ?s] valid run ro res exp on that(5)
          show ?thesis by (simp add: spec_resolved_simps)
        qed
      qed
    qed
  qed
qed


lemma endpoint_lookup_simps:
  "\<not> list_ex is_SetLoggerProvider (endpoint_lookup cfg)"
  "\<not> list_ex (failed w) (endpoint_lookup cfg)"
  "filter is_SetLoggerProvider (endpoint_lookup cfg) = []"
  "set (endpoint_lookup cfg) =
     (if Endpoint cfg = [] then {Getenv ''OTEL_EXPORTER_OTLP_ENDPOINT''} else {})"
  by (simp_all add: endpoint_lookup_def)

lemma Info_eq:
  "Info w ctx l msg attrs s =
     s\<lparr>calls := calls s @
        [Emit l ctx \<lparr>timestamp = time_Now w, severity = SeverityInfo,
                     body = StringValue msg, attributes = attrs\<rparr>]\<rparr>"
  by (simp add: Info_def fold_AddAttributes zero_Record_def SetTimestamp_def SetSeverity_def
      SetBody_def record_call_def)

lemma Error_eq:
  "Error w ctx l msg attrs s =
     s\<lparr>calls := calls s @
        [Emit l ctx \<lparr>timestamp = time_Now w, severity = SeverityError,
                     body = StringValue msg, attributes = attrs\<rparr>]\<rparr>"
  by (simp add: Error_def fold_AddAttributes zero_Record_def SetTimestamp_def SetSeverity_def
      SetBody_def record_call_def)

lemma Warn_eq:
  "Warn w ctx l msg attrs s =
     s\<lparr>calls := calls s @
        [Emit l ctx \<lparr>timestamp = time_Now w, severity = SeverityWarn,
                     body = StringValue msg, attributes = attrs\<rparr>]\<rparr>"
  by (simp add: Warn_def fold_AddAttributes zero_Record_def SetTimestamp_def SetSeverity_def
      SetBody_def record_call_def)

lemma Debug_eq:
  "Debug w ctx l msg attrs s =
     s\<lparr>calls := calls s @
        [Emit l ctx \<lparr>timestamp = time_Now w, severity = SeverityDebug,
                     body = StringValue msg, attributes = attrs\<rparr>]\<rparr>"
  by (simp add: Debug_def fold_AddAttributes zero_Record_def SetTimestamp_def SetSeverity_def
      SetBody_def record_call_def)

lemma unit_values:
  "unat (10 * Second) = 10000000000"
  "unat (2 * Second) = 2000000000"
  "unat (5 * Second) = 5000000000"
  "unat (500 * Millisecond) = 500000000"
  by (simp_all add: Second_def Millisecond_def Microsecond_def Nanosecond_def)

lemma resolve_defaults_calls:
  "new_calls s (snd (resolve_defaults w cfg s)) = endpoint_lookup cfg"
  by (simp add: resolve_defaults_eq new_calls_def record_call_def endpoint_lookup_def)

lemma dial_options_eq:
  "dial_options cfg =
     WithBlock
     # WithConnectParams
         \<lparr>Backoff = \<lparr>BaseDelay = 500 * Millisecond, Multiplier = 1.6, MaxDelay = 5 * Second\<rparr>,
          MinConnectTimeout = DialTimeout cfg\<rparr>
     # (if Insecure cfg then [WithTransportCredentials insecure_NewCredentials] else [])"
  by (simp add: dial_options_def Let_def)

lemma exporter_options_resolved:
  "exporter_options (spec_resolved w cfg) =
     [WithEndpoint (spec_endpoint w cfg),
      WithDialOption
        (WithBlock
         # WithConnectParams
             \<lparr>Backoff = \<lparr>BaseDelay = 500 * Millisecond, Multiplier = 1.6, MaxDelay = 5 * Second\<rparr>,
              MinConnectTimeout = spec_dial_timeout cfg\<rparr>
         # (if Insecure cfg then [WithTransportCredentials insecure_NewCredentials] else []))]"
  by (simp add: exporter_options_def dial_options_eq spec_resolved_simps)

lemma batch_processor_resolved:
  "batch_processor ctx (spec_resolved w cfg) =
     NewBatchProcessor (logexp_Exporter ctx (exporter_options (spec_resolved w cfg)))
       [WithExportInterval (spec_export_interval cfg), WithMaxQueueSize (spec_max_queue_size cfg)]"
  by (simp add: batch_processor_def spec_resolved_simps)

lemma InitLogs_exporter_calls:
  assumes "InitLogs w ctx cfg s = (r, s')"
    and "logexp_New c opts \<in> set (new_calls s s')"
  shows "c = ctx \<and> opts = exporter_options (spec_resolved w cfg)"
  using assms
  by (cases rule: InitLogs_paths [where cfg = cfg and w = w and ctx = ctx and s = s])
    (auto simp: new_calls_def endpoint_lookup_simps split: if_splits)

lemma InitLogs_exporter_reached:
  assumes "InitLogs w ctx cfg s = (r, s')"
    and "ServiceName cfg \<noteq> []" and "resource_New_err w ctx (resource_options cfg) = None"
  shows "logexp_New ctx (exporter_options (spec_resolved w cfg)) \<in> set (new_calls s s')"
  using assms
  by (cases rule: InitLogs_paths [where cfg = cfg and w = w and ctx = ctx and s = s])
    (auto simp: new_calls_def)

lemma InitLogs_provider:
  assumes "InitLogs w ctx cfg s = (r, s')" and "\<not> isl r"
  shows "global_provider s' =
    NewLoggerProvider
      (WithResource (Resource ctx (resource_options cfg))
       # WithProcessor (batch_processor ctx (spec_resolved w cfg))
       # (if EnableStdout cfg then [WithProcessor stdout_processor] else []))"
  using assms
  by (cases rule: InitLogs_paths [where cfg = cfg and w = w and ctx = ctx and s = s]) auto

lemma InitLogs_success_reached:
  assumes "InitLogs w ctx cfg s = (r, s')"
    and "ServiceName cfg \<noteq> []" and "resource_New_err w ctx (resource_options cfg) = None"
    and "logexp_New_err w ctx (exporter_options (spec_resolved w cfg)) = None"
    and "EnableStdout cfg \<longrightarrow> stdoutlog_New_err w [WithPrettyPrint] = None"
  shows "\<not> isl r"
  using assms
  by (cases rule: InitLogs_paths [where cfg = cfg and w = w and ctx = ctx and s = s]) auto

lemma negative_nonzero: "sint x < 0 \<Longrightarrow> x \<noteq> 0"
  by auto

lemma InitLogs_stdout_calls:
  assumes "InitLogs w ctx cfg s = (r, s')"
    and "stdoutlog_New opts \<in> set (new_calls s s')"
  shows "EnableStdout cfg \<and> opts = [WithPrettyPrint]
    \<and> (case stdoutlog_New_err w [WithPrettyPrint] of
          Some e \<Rightarrow> r = Inl (fmt_Errorf_w ''stdout log exporter: '' e)
        | None \<Rightarrow> \<not> isl r)"
  using assms
  by (cases rule: InitLogs_paths [where cfg = cfg and w = w and ctx = ctx and s = s])
    (auto simp: new_calls_def endpoint_lookup_simps split: if_splits)

lemma InitLogs_stdout_reached:
  assumes "InitLogs w ctx cfg s = (r, s')"
    and "ServiceName cfg \<noteq> []" and "resource_New_err w ctx (resource_options cfg) = None"
    and "logexp_New_err w ctx (exporter_options (spec_resolved w cfg)) = None"
    and "EnableStdout cfg"
  shows "stdoutlog_New [WithPrettyPrint] \<in> set (new_calls s s')"
  using assms
  by (cases rule: InitLogs_paths [where cfg = cfg and w = w and ctx = ctx and s = s])
    (auto simp: new_calls_def)

lemma InitLogs_error_keeps_provider:
  assumes "InitLogs w ctx cfg s = (r, s')" and "isl r"
  shows "global_provider s' = global_provider s
    \<and> \<not> list_ex is_SetLoggerProvider (new_calls s s')"
  using assms
  by (cases rule: InitLogs_paths [where cfg = cfg and w = w and ctx = ctx and s = s])
    (auto simp: new_calls_def endpoint_lookup_simps)

lemma InitLogs_resource_calls:
  assumes "InitLogs w ctx cfg s = (r, s')"
    and "resource_New c opts \<in> set (new_calls s s')"
  shows "c = ctx \<and> opts = resource_options cfg"
  using assms
  by (cases rule: InitLogs_paths [where cfg = cfg and w = w and ctx = ctx and s = s])
    (auto simp: new_calls_def endpoint_lookup_simps split: if_splits)

lemma InitLogs_resource_reached:
  assumes "InitLogs w ctx cfg s = (r, s')" and "ServiceName cfg \<noteq> []"
  shows "resource_New ctx (resource_options cfg) \<in> set (new_calls s s')
    \<and> (case resource_New_err w ctx (resource_options cfg) of
          Some e \<Rightarrow> r = Inl (fmt_Errorf_w ''resource: '' e)
        | None \<Rightarrow> True)"
  using assms
  by (cases rule: InitLogs_paths [where cfg = cfg and w = w and ctx = ctx and s = s])
    (auto simp: new_calls_def)

lemma step_keeps_provider:
  "\<not> is_OpInitLogs x \<Longrightarrow> global_provider (step x s) = global_provider s"
  by (cases x) (simp_all add: Info_eq Error_eq Warn_eq Debug_eq)

lemma run_keeps_provider:
  "\<not> list_ex is_OpInitLogs ops \<Longrightarrow> global_provider (run ops s) = global_provider s"
  unfolding run_def
  by (induction ops arbitrary: s) (simp_all add: step_keeps_provider)

text \<open>Unfolding everything evaluates a call of InitLogs on the concrete inputs.\<close>

lemmas run_defs =
  InitLogs_def resolve_defaults_def build_def install_provider_def record_call_def
  resource_options_def exporter_options_def dial_options_def new_calls_def Let_def
  init_state_def cfg_demo_def world_ok_def world_bad_resource_def world_no_collector_def
  world_no_stdout_def spec_endpoint_def spec_dial_timeout_def spec_export_interval_def
  spec_max_queue_size_def spec_resolved_def

section \<open>Install or fail\<close>

text \<open>
  Claim C1. Let \<open>InitLogs\<close> return \<open>r\<close> and leave the state \<open>s'\<close>. With an empty service
  name it returns the configuration error and the state is untouched. It returns an error
  exactly when the service name is empty or one of the library constructors it called
  (resource, OTLP exporter, stdout exporter) reported an error. Whenever it returns an
  error, the global provider is the one it found and \<open>SetLoggerProvider\<close> was not called.
  Only when it returns no error was \<open>SetLoggerProvider\<close> called, once, as the last call,
  with the provider whose shutdown is returned.
\<close>

theorem InitLogs_install_or_fail:
  assumes "InitLogs w ctx cfg s = (r, s')"
  shows "(ServiceName cfg = [] \<longrightarrow>
            r = Inl (errors_New ''telemetry: ServiceName is required'') \<and> s' = s)
       \<and> (isl r \<longleftrightarrow> ServiceName cfg = [] \<or> list_ex (failed w) (new_calls s s'))
       \<and> (isl r \<longrightarrow> global_provider s' = global_provider s
                    \<and> \<not> list_ex is_SetLoggerProvider (new_calls s s'))
       \<and> (\<not> isl r \<longrightarrow> r = Inr (Shutdown (global_provider s'))
                    \<and> filter is_SetLoggerProvider (new_calls s s')
                        = [SetLoggerProvider (global_provider s')]
                    \<and> last (new_calls s s') = SetLoggerProvider (global_provider s'))"
  using assms
  by (cases rule: InitLogs_paths [where cfg = cfg and w = w and ctx = ctx and s = s])
    (auto simp: new_calls_def endpoint_lookup_simps)

theorem InitLogs_install_or_fail_witness:
  "InitLogs world_ok (Context 0) (cfg_demo\<lparr>ServiceName := []\<rparr>) init_state
     = (Inl (errors_New ''telemetry: ServiceName is required''), init_state)
   \<and> isl (fst (InitLogs world_no_collector (Context 0) cfg_demo init_state))
   \<and> global_provider (snd (InitLogs world_no_collector (Context 0) cfg_demo init_state))
       = default_LoggerProvider
   \<and> \<not> isl (fst (InitLogs world_ok (Context 0) cfg_demo init_state))
   \<and> last (calls (snd (InitLogs world_ok (Context 0) cfg_demo init_state)))
       = SetLoggerProvider (global_provider (snd (InitLogs world_ok (Context 0) cfg_demo init_state)))"
proof -
  have e1: "ServiceName (cfg_demo\<lparr>ServiceName := []\<rparr>) = []" by simp
  have e2: "isl (fst (InitLogs world_no_collector (Context 0) cfg_demo init_state))"
    by (simp add: run_defs)
  have e3: "\<not> isl (fst (InitLogs world_ok (Context 0) cfg_demo init_state))"
    by (simp add: run_defs)
  from e1 e2 e3
    InitLogs_install_or_fail [where w = world_ok and ctx = "Context 0"
      and cfg = "cfg_demo\<lparr>ServiceName := []\<rparr>" and s = init_state, OF prod.collapse [symmetric]]
    InitLogs_install_or_fail [where w = world_no_collector and ctx = "Context 0"
      and cfg = cfg_demo and s = init_state, OF prod.collapse [symmetric]]
    InitLogs_install_or_fail [where w = world_ok and ctx = "Context 0"
      and cfg = cfg_demo and s = init_state, OF prod.collapse [symmetric]]
  show ?thesis by (simp add: new_calls_def init_state_def prod_eq_iff)
qed


section \<open>Endpoint resolution\<close>

text \<open>
  Claim C2. The endpoint resolved by lines 51-57 is the configured one if non-empty,
  otherwise the value of \<open>OTEL_EXPORTER_OTLP_ENDPOINT\<close> if non-empty, otherwise
  \<open>localhost:4317\<close> (\<open>spec_endpoint\<close>). \<open>InitLogs\<close> reads no other environment variable,
  reads this one only when the configured endpoint is empty, and does read it then once
  the service name is accepted. Every call of \<open>logexp.New\<close> it makes carries
  \<open>WithEndpoint\<close> of the resolved endpoint, and it makes that call whenever the
  service name is accepted and the resource is built.
\<close>

theorem InitLogs_endpoint_precedence:
  assumes "InitLogs w ctx cfg s = (r, s')"
  shows "Endpoint (fst (resolve_defaults w cfg s)) =
           (if Endpoint cfg \<noteq> [] then Endpoint cfg
            else if os_Getenv w ''OTEL_EXPORTER_OTLP_ENDPOINT'' \<noteq> []
                 then os_Getenv w ''OTEL_EXPORTER_OTLP_ENDPOINT''
                 else ''localhost:4317'')
       \<and> (\<forall>n. Getenv n \<in> set (new_calls s s') \<longrightarrow>
              n = ''OTEL_EXPORTER_OTLP_ENDPOINT'' \<and> Endpoint cfg = [])
       \<and> (ServiceName cfg \<noteq> [] \<and> Endpoint cfg = [] \<longrightarrow>
              Getenv ''OTEL_EXPORTER_OTLP_ENDPOINT'' \<in> set (new_calls s s'))
       \<and> (\<forall>c opts. logexp_New c opts \<in> set (new_calls s s') \<longrightarrow>
              (\<exists>dopts. opts =
                 [WithEndpoint (Endpoint (fst (resolve_defaults w cfg s))), WithDialOption dopts]))
       \<and> (ServiceName cfg \<noteq> [] \<and> resource_New_err w ctx (resource_options cfg) = None \<longrightarrow>
              (\<exists>opts. logexp_New ctx opts \<in> set (new_calls s s')))"
proof -
  have resolved: "Endpoint (fst (resolve_defaults w cfg s)) =
           (if Endpoint cfg \<noteq> [] then Endpoint cfg
            else if os_Getenv w ''OTEL_EXPORTER_OTLP_ENDPOINT'' \<noteq> []
                 then os_Getenv w ''OTEL_EXPORTER_OTLP_ENDPOINT''
                 else ''localhost:4317'')"
    by (simp add: resolve_defaults_def Let_def)
  have lookups: "(\<forall>n. Getenv n \<in> set (new_calls s s') \<longrightarrow>
              n = ''OTEL_EXPORTER_OTLP_ENDPOINT'' \<and> Endpoint cfg = [])
       \<and> (ServiceName cfg \<noteq> [] \<and> Endpoint cfg = [] \<longrightarrow>
              Getenv ''OTEL_EXPORTER_OTLP_ENDPOINT'' \<in> set (new_calls s s'))"
    using assms
    by (cases rule: InitLogs_paths [where cfg = cfg and w = w and ctx = ctx and s = s])
      (auto simp: new_calls_def endpoint_lookup_simps split: if_splits)
  have passed: "\<exists>dopts. opts =
      [WithEndpoint (Endpoint (fst (resolve_defaults w cfg s))), WithDialOption dopts]"
    if "logexp_New c opts \<in> set (new_calls s s')" for c opts
    using InitLogs_exporter_calls [OF assms that]
    by (simp add: exporter_options_def resolve_defaults_eq)
  have reached: "ServiceName cfg \<noteq> [] \<and> resource_New_err w ctx (resource_options cfg) = None \<longrightarrow>
            (\<exists>opts. logexp_New ctx opts \<in> set (new_calls s s'))"
    using InitLogs_exporter_reached [OF assms] by blast
  from resolved lookups passed reached show ?thesis by blast
qed

theorem InitLogs_endpoint_precedence_witness:
  "Getenv ''OTEL_EXPORTER_OTLP_ENDPOINT''
     \<in> set (calls (snd (InitLogs world_ok (Context 0) cfg_demo init_state)))
   \<and> (\<exists>dopts. logexp_New (Context 0) [WithEndpoint ''collector:4317'', WithDialOption dopts]
        \<in> set (calls (snd (InitLogs world_ok (Context 0) cfg_demo init_state))))
   \<and> Endpoint (fst (resolve_defaults (world_ok\<lparr>os_Getenv := (\<lambda>n. [])\<rparr>) cfg_demo init_state))
       = ''localhost:4317''
   \<and> Endpoint (fst (resolve_defaults world_ok (cfg_demo\<lparr>Endpoint := ''otel:4317''\<rparr>) init_state))
       = ''otel:4317''"
proof -
  note t = InitLogs_endpoint_precedence [where w = world_ok and ctx = "Context 0"
      and cfg = cfg_demo and s = init_state, OF prod.collapse [symmetric]]
  note unset = InitLogs_endpoint_precedence [where w = "world_ok\<lparr>os_Getenv := (\<lambda>n. [])\<rparr>"
      and ctx = "Context 0" and cfg = cfg_demo and s = init_state, OF prod.collapse [symmetric]]
  note given = InitLogs_endpoint_precedence [where w = world_ok and ctx = "Context 0"
      and cfg = "cfg_demo\<lparr>Endpoint := ''otel:4317''\<rparr>" and s = init_state,
      OF prod.collapse [symmetric]]
  have valid: "ServiceName cfg_demo \<noteq> [] \<and> Endpoint cfg_demo = []
    \<and> resource_New_err world_ok (Context 0) (resource_options cfg_demo) = None"
    by (simp add: cfg_demo_def world_ok_def)
  have env: "os_Getenv world_ok ''OTEL_EXPORTER_OTLP_ENDPOINT'' = ''collector:4317''
    \<and> os_Getenv (world_ok\<lparr>os_Getenv := (\<lambda>n. [])\<rparr>) ''OTEL_EXPORTER_OTLP_ENDPOINT'' = []
    \<and> Endpoint (cfg_demo\<lparr>Endpoint := ''otel:4317''\<rparr>) = ''otel:4317''"
    by (simp add: world_ok_def)
  from t have "Endpoint (fst (resolve_defaults world_ok cfg_demo init_state)) =
           (if Endpoint cfg_demo \<noteq> [] then Endpoint cfg_demo
            else if os_Getenv world_ok ''OTEL_EXPORTER_OTLP_ENDPOINT'' \<noteq> []
                 then os_Getenv world_ok ''OTEL_EXPORTER_OTLP_ENDPOINT''
                 else ''localhost:4317'')"
    by (rule conjunct1)
  with valid env have ep: "Endpoint (fst (resolve_defaults world_ok cfg_demo init_state))
      = ''collector:4317''"
    by simp
  from t valid have a: "Getenv ''OTEL_EXPORTER_OTLP_ENDPOINT''
     \<in> set (new_calls init_state (snd (InitLogs world_ok (Context 0) cfg_demo init_state)))"
    by blast
  from t valid have "\<exists>dopts. logexp_New (Context 0)
        [WithEndpoint (Endpoint (fst (resolve_defaults world_ok cfg_demo init_state))),
         WithDialOption dopts]
      \<in> set (new_calls init_state (snd (InitLogs world_ok (Context 0) cfg_demo init_state)))"
    by blast
  with ep have b: "\<exists>dopts. logexp_New (Context 0)
        [WithEndpoint ''collector:4317'', WithDialOption dopts]
      \<in> set (new_calls init_state (snd (InitLogs world_ok (Context 0) cfg_demo init_state)))"
    by simp
  from unset have "Endpoint (fst (resolve_defaults (world_ok\<lparr>os_Getenv := (\<lambda>n. [])\<rparr>)
          cfg_demo init_state)) =
           (if Endpoint cfg_demo \<noteq> [] then Endpoint cfg_demo
            else if os_Getenv (world_ok\<lparr>os_Getenv := (\<lambda>n. [])\<rparr>) ''OTEL_EXPORTER_OTLP_ENDPOINT'' \<noteq> []
                 then os_Getenv (world_ok\<lparr>os_Getenv := (\<lambda>n. [])\<rparr>) ''OTEL_EXPORTER_OTLP_ENDPOINT''
                 else ''localhost:4317'')"
    by (rule conjunct1)
  with valid env have c: "Endpoint (fst (resolve_defaults (world_ok\<lparr>os_Getenv := (\<lambda>n. [])\<rparr>)
      cfg_demo init_state)) = ''localhost:4317''"
    by simp
  from given have "Endpoint (fst (resolve_defaults world_ok
          (cfg_demo\<lparr>Endpoint := ''otel:4317''\<rparr>) init_state)) =
           (if Endpoint (cfg_demo\<lparr>Endpoint := ''otel:4317''\<rparr>) \<noteq> []
            then Endpoint (cfg_demo\<lparr>Endpoint := ''otel:4317''\<rparr>)
            else if os_Getenv world_ok ''OTEL_EXPORTER_OTLP_ENDPOINT'' \<noteq> []
                 then os_Getenv world_ok ''OTEL_EXPORTER_OTLP_ENDPOINT''
                 else ''localhost:4317'')"
    by (rule conjunct1)
  with env have d: "Endpoint (fst (resolve_defaults world_ok
      (cfg_demo\<lparr>Endpoint := ''otel:4317''\<rparr>) init_state)) = ''otel:4317''"
    by simp
  from a b c d show ?thesis by (simp add: new_calls_def init_state_def)
qed

section \<open>The emitters\<close>

text \<open>
  Claim C4. Each of \<open>Debug\<close>, \<open>Info\<close>, \<open>Warn\<close> and \<open>Error\<close> adds exactly one call to
  the state, the call of the handle's \<open>Emit\<close> with the given context and one record:
  its timestamp is the reading of the clock, its severity the level the function is
  named after, its body the message as a string value, its attributes the given ones
  in the given order. Nothing else of the state changes and no error is returned.
\<close>

theorem emitters_emit_one_record:
  "Debug w ctx l msg attrs s =
     s\<lparr>calls := calls s @
        [Emit l ctx \<lparr>timestamp = time_Now w, severity = SeverityDebug,
                     body = StringValue msg, attributes = attrs\<rparr>]\<rparr>
   \<and> Info w ctx l msg attrs s =
     s\<lparr>calls := calls s @
        [Emit l ctx \<lparr>timestamp = time_Now w, severity = SeverityInfo,
                     body = StringValue msg, attributes = attrs\<rparr>]\<rparr>
   \<and> Warn w ctx l msg attrs s =
     s\<lparr>calls := calls s @
        [Emit l ctx \<lparr>timestamp = time_Now w, severity = SeverityWarn,
                     body = StringValue msg, attributes = attrs\<rparr>]\<rparr>
   \<and> Error w ctx l msg attrs s =
     s\<lparr>calls := calls s @
        [Emit l ctx \<lparr>timestamp = time_Now w, severity = SeverityError,
                     body = StringValue msg, attributes = attrs\<rparr>]\<rparr>"
  by (simp only: Debug_eq Info_eq Warn_eq Error_eq simp_thms)

section \<open>Defaults of the tunables\<close>

text \<open>
  Claim C3. Lines 58-66 resolve a zero dial timeout to 10 seconds, a zero export interval to
  2 seconds and a zero queue size to 4096, and keep any other value. This happens before
  any library object is built: the defaulting step calls nothing but \<open>Getenv\<close>, and
  everything after it (\<open>build\<close>) runs on the resolved configuration. What the libraries
  receive are the resolved values: the minimum connect timeout in the dial options of
  every \<open>logexp.New\<close> call, and the export interval and queue size of the batch
  processor of the installed provider.
\<close>

theorem InitLogs_tunable_defaults:
  assumes "InitLogs w ctx cfg s = (r, s')"
  shows "DialTimeout (fst (resolve_defaults w cfg s))
           = (if DialTimeout cfg = 0 then 10 * Second else DialTimeout cfg)
       \<and> ExportInterval (fst (resolve_defaults w cfg s))
           = (if ExportInterval cfg = 0 then 2 * Second else ExportInterval cfg)
       \<and> MaxQueueSize (fst (resolve_defaults w cfg s))
           = (if MaxQueueSize cfg = 0 then 4096 else MaxQueueSize cfg)
       \<and> unat (10 * Second) = 10000000000 \<and> unat (2 * Second) = 2000000000
       \<and> (\<forall>c \<in> set (new_calls s (snd (resolve_defaults w cfg s))). \<exists>n. c = Getenv n)
       \<and> (ServiceName cfg \<noteq> [] \<longrightarrow>
            (r, s') = build w ctx (fst (resolve_defaults w cfg s)) (snd (resolve_defaults w cfg s)))
       \<and> (\<forall>c opts. logexp_New c opts \<in> set (new_calls s s') \<longrightarrow>
            (\<exists>ep bo rest. opts =
               [WithEndpoint ep,
                WithDialOption (WithBlock
                  # WithConnectParams
                      \<lparr>Backoff = bo,
                       MinConnectTimeout = DialTimeout (fst (resolve_defaults w cfg s))\<rparr>
                  # rest)]))
       \<and> (\<not> isl r \<longrightarrow>
            (\<exists>e. hd (provider_processors (global_provider s')) =
               NewBatchProcessor e
                 [WithExportInterval (ExportInterval (fst (resolve_defaults w cfg s))),
                  WithMaxQueueSize (MaxQueueSize (fst (resolve_defaults w cfg s)))]))"
proof -
  have defaults: "DialTimeout (fst (resolve_defaults w cfg s))
           = (if DialTimeout cfg = 0 then 10 * Second else DialTimeout cfg)
       \<and> ExportInterval (fst (resolve_defaults w cfg s))
           = (if ExportInterval cfg = 0 then 2 * Second else ExportInterval cfg)
       \<and> MaxQueueSize (fst (resolve_defaults w cfg s))
           = (if MaxQueueSize cfg = 0 then 4096 else MaxQueueSize cfg)"
    by (simp add: resolve_defaults_def Let_def)
  have only_env: "\<forall>c \<in> set (new_calls s (snd (resolve_defaults w cfg s))). \<exists>n. c = Getenv n"
    by (simp add: resolve_defaults_calls endpoint_lookup_simps)
  have staged: "ServiceName cfg \<noteq> [] \<longrightarrow>
      (r, s') = build w ctx (fst (resolve_defaults w cfg s)) (snd (resolve_defaults w cfg s))"
    using assms by (auto simp: InitLogs_def split_beta)
  have dial: "\<forall>c opts. logexp_New c opts \<in> set (new_calls s s') \<longrightarrow>
            (\<exists>ep bo rest. opts =
               [WithEndpoint ep,
                WithDialOption (WithBlock
                  # WithConnectParams
                      \<lparr>Backoff = bo,
                       MinConnectTimeout = DialTimeout (fst (resolve_defaults w cfg s))\<rparr>
                  # rest)])"
    by (auto dest!: InitLogs_exporter_calls [OF assms]
        simp: exporter_options_resolved resolve_defaults_eq spec_resolved_simps)
  have batch: "\<not> isl r \<longrightarrow>
            (\<exists>e. hd (provider_processors (global_provider s')) =
               NewBatchProcessor e
                 [WithExportInterval (ExportInterval (fst (resolve_defaults w cfg s))),
                  WithMaxQueueSize (MaxQueueSize (fst (resolve_defaults w cfg s)))])"
    using InitLogs_provider [OF assms]
    by (simp add: batch_processor_resolved resolve_defaults_eq spec_resolved_simps)
  from defaults only_env staged dial batch unit_values(1,2) show ?thesis by blast
qed

theorem InitLogs_tunable_defaults_witness:
  "DialTimeout (fst (resolve_defaults world_ok cfg_demo init_state)) = 10 * Second
   \<and> (\<exists>e. hd (provider_processors
         (global_provider (snd (InitLogs world_ok (Context 0) cfg_demo init_state))))
       = NewBatchProcessor e [WithExportInterval (2 * Second), WithMaxQueueSize 4096])"
proof -
  note t = InitLogs_tunable_defaults [where w = world_ok and ctx = "Context 0"
      and cfg = cfg_demo and s = init_state, OF prod.collapse [symmetric]]
  have zero: "DialTimeout cfg_demo = 0"
    by (simp add: cfg_demo_def)
  have ok: "\<not> isl (fst (InitLogs world_ok (Context 0) cfg_demo init_state))"
    by (simp add: run_defs)
  have resolved: "ExportInterval (fst (resolve_defaults world_ok cfg_demo init_state)) = 2 * Second
      \<and> MaxQueueSize (fst (resolve_defaults world_ok cfg_demo init_state)) = 4096"
    by (simp add: run_defs)
  from t have "DialTimeout (fst (resolve_defaults world_ok cfg_demo init_state))
      = (if DialTimeout cfg_demo = 0 then 10 * Second else DialTimeout cfg_demo)"
    by (rule conjunct1)
  with zero have a: "DialTimeout (fst (resolve_defaults world_ok cfg_demo init_state)) = 10 * Second"
    by simp
  from t ok have "\<exists>e. hd (provider_processors
         (global_provider (snd (InitLogs world_ok (Context 0) cfg_demo init_state))))
       = NewBatchProcessor e
          [WithExportInterval (ExportInterval (fst (resolve_defaults world_ok cfg_demo init_state))),
           WithMaxQueueSize (MaxQueueSize (fst (resolve_defaults world_ok cfg_demo init_state)))]"
    by blast
  with resolved have b: "\<exists>e. hd (provider_processors
         (global_provider (snd (InitLogs world_ok (Context 0) cfg_demo init_state))))
       = NewBatchProcessor e [WithExportInterval (2 * Second), WithMaxQueueSize 4096]"
    by simp
  from a b show ?thesis ..
qed

section \<open>Negative tunables\<close>

text \<open>
  Claim C10. Only the value zero triggers a default. A strictly negative dial timeout,
  export interval or queue size is kept by lines 58-66, and everything after that step
  runs on the configuration that holds it. A negative dial timeout is handed on as it
  is: once the service name is accepted and the resource is built, \<open>logexp.New\<close> is
  called with it as the minimum connect timeout, and no \<open>logexp.New\<close> call carries
  another. When no constructor reports an error \<open>InitLogs\<close> succeeds, and then a
  negative export interval and a negative queue size are the options of the batch
  processor of the installed provider.
\<close>

theorem InitLogs_negative_tunables_forwarded:
  assumes "InitLogs w ctx cfg s = (r, s')"
  shows "(sint (DialTimeout cfg) < 0 \<longrightarrow>
            DialTimeout (fst (resolve_defaults w cfg s)) = DialTimeout cfg)
       \<and> (sint (ExportInterval cfg) < 0 \<longrightarrow>
            ExportInterval (fst (resolve_defaults w cfg s)) = ExportInterval cfg)
       \<and> (sint (MaxQueueSize cfg) < 0 \<longrightarrow>
            MaxQueueSize (fst (resolve_defaults w cfg s)) = MaxQueueSize cfg)
       \<and> (ServiceName cfg \<noteq> [] \<longrightarrow>
            (r, s') = build w ctx (fst (resolve_defaults w cfg s)) (snd (resolve_defaults w cfg s)))
       \<and> (sint (DialTimeout cfg) < 0 \<and> ServiceName cfg \<noteq> []
            \<and> resource_New_err w ctx (resource_options cfg) = None \<longrightarrow>
            (\<exists>ep bo rest. logexp_New ctx
               [WithEndpoint ep,
                WithDialOption (WithBlock
                  # WithConnectParams \<lparr>Backoff = bo, MinConnectTimeout = DialTimeout cfg\<rparr>
                  # rest)]
               \<in> set (new_calls s s')))
       \<and> (sint (DialTimeout cfg) < 0 \<longrightarrow>
            (\<forall>c opts. logexp_New c opts \<in> set (new_calls s s') \<longrightarrow>
               (\<exists>ep bo rest. opts =
                  [WithEndpoint ep,
                   WithDialOption (WithBlock
                     # WithConnectParams \<lparr>Backoff = bo, MinConnectTimeout = DialTimeout cfg\<rparr>
                     # rest)])))
       \<and> (ServiceName cfg \<noteq> [] \<and> resource_New_err w ctx (resource_options cfg) = None
            \<and> logexp_New_err w ctx (exporter_options (fst (resolve_defaults w cfg s))) = None
            \<and> (EnableStdout cfg \<longrightarrow> stdoutlog_New_err w [WithPrettyPrint] = None) \<longrightarrow>
            \<not> isl r)
       \<and> (sint (ExportInterval cfg) < 0 \<and> \<not> isl r \<longrightarrow>
            (\<exists>e q. hd (provider_processors (global_provider s')) =
               NewBatchProcessor e [WithExportInterval (ExportInterval cfg), q]))
       \<and> (sint (MaxQueueSize cfg) < 0 \<and> \<not> isl r \<longrightarrow>
            (\<exists>e i. hd (provider_processors (global_provider s')) =
               NewBatchProcessor e [i, WithMaxQueueSize (MaxQueueSize cfg)]))"
proof -
  have kept_timeout: "spec_dial_timeout cfg = DialTimeout cfg" if "sint (DialTimeout cfg) < 0"
    using that by (simp add: spec_dial_timeout_def negative_nonzero)
  have kept_interval: "spec_export_interval cfg = ExportInterval cfg"
    if "sint (ExportInterval cfg) < 0"
    using that by (simp add: spec_export_interval_def negative_nonzero)
  have kept_queue: "spec_max_queue_size cfg = MaxQueueSize cfg" if "sint (MaxQueueSize cfg) < 0"
    using that by (simp add: spec_max_queue_size_def negative_nonzero)
  have kept: "(sint (DialTimeout cfg) < 0 \<longrightarrow>
            DialTimeout (fst (resolve_defaults w cfg s)) = DialTimeout cfg)
       \<and> (sint (ExportInterval cfg) < 0 \<longrightarrow>
            ExportInterval (fst (resolve_defaults w cfg s)) = ExportInterval cfg)
       \<and> (sint (MaxQueueSize cfg) < 0 \<longrightarrow>
            MaxQueueSize (fst (resolve_defaults w cfg s)) = MaxQueueSize cfg)"
    using kept_timeout kept_interval kept_queue
    by (simp add: resolve_defaults_eq spec_resolved_simps)
  have staged: "ServiceName cfg \<noteq> [] \<longrightarrow>
      (r, s') = build w ctx (fst (resolve_defaults w cfg s)) (snd (resolve_defaults w cfg s))"
    using assms by (auto simp: InitLogs_def split_beta)
  have made: "\<exists>ep bo rest. logexp_New ctx
               [WithEndpoint ep,
                WithDialOption (WithBlock
                  # WithConnectParams \<lparr>Backoff = bo, MinConnectTimeout = DialTimeout cfg\<rparr>
                  # rest)]
               \<in> set (new_calls s s')"
    if "sint (DialTimeout cfg) < 0 \<and> ServiceName cfg \<noteq> []
        \<and> resource_New_err w ctx (resource_options cfg) = None"
  proof -
    from that InitLogs_exporter_reached [OF assms]
    have "logexp_New ctx (exporter_options (spec_resolved w cfg)) \<in> set (new_calls s s')"
      by simp
    with that kept_timeout have "logexp_New ctx
        [WithEndpoint (spec_endpoint w cfg),
         WithDialOption (WithBlock
           # WithConnectParams
               \<lparr>Backoff = \<lparr>BaseDelay = 500 * Millisecond, Multiplier = 1.6,
                           MaxDelay = 5 * Second\<rparr>,
                MinConnectTimeout = DialTimeout cfg\<rparr>
           # (if Insecure cfg then [WithTransportCredentials insecure_NewCredentials] else []))]
        \<in> set (new_calls s s')"
      by (simp add: exporter_options_resolved)
    then show ?thesis by blast
  qed
  have every: "\<exists>ep bo rest. opts =
                  [WithEndpoint ep,
                   WithDialOption (WithBlock
                     # WithConnectParams \<lparr>Backoff = bo, MinConnectTimeout = DialTimeout cfg\<rparr>
                     # rest)]"
    if "sint (DialTimeout cfg) < 0" and "logexp_New c opts \<in> set (new_calls s s')" for c opts
    using InitLogs_exporter_calls [OF assms that(2)] kept_timeout [OF that(1)]
    by (simp add: exporter_options_resolved)
  have succeeds: "ServiceName cfg \<noteq> [] \<and> resource_New_err w ctx (resource_options cfg) = None
            \<and> logexp_New_err w ctx (exporter_options (fst (resolve_defaults w cfg s))) = None
            \<and> (EnableStdout cfg \<longrightarrow> stdoutlog_New_err w [WithPrettyPrint] = None) \<longrightarrow>
            \<not> isl r"
    using InitLogs_success_reached [OF assms] by (simp add: resolve_defaults_eq)
  have batch: "hd (provider_processors (global_provider s')) =
               NewBatchProcessor (logexp_Exporter ctx (exporter_options (spec_resolved w cfg)))
                 [WithExportInterval (spec_export_interval cfg),
                  WithMaxQueueSize (spec_max_queue_size cfg)]"
    if "\<not> isl r"
    using InitLogs_provider [OF assms that] by (simp add: batch_processor_resolved)
  have interval: "\<exists>e q. hd (provider_processors (global_provider s')) =
               NewBatchProcessor e [WithExportInterval (ExportInterval cfg), q]"
    if "sint (ExportInterval cfg) < 0 \<and> \<not> isl r"
    using that batch kept_interval by simp
  have queue: "\<exists>e i. hd (provider_processors (global_provider s')) =
               NewBatchProcessor e [i, WithMaxQueueSize (MaxQueueSize cfg)]"
    if "sint (MaxQueueSize cfg) < 0 \<and> \<not> isl r"
    using that batch kept_queue by simp
  from kept staged made every succeeds interval queue show ?thesis by blast
qed

theorem InitLogs_negative_tunables_forwarded_witness:
  "sint (DialTimeout cfg_negative) < 0 \<and> sint (ExportInterval cfg_negative) < 0
   \<and> sint (MaxQueueSize cfg_negative) < 0
   \<and> (\<exists>ep bo rest. logexp_New (Context 0)
         [WithEndpoint ep,
          WithDialOption (WithBlock
            # WithConnectParams \<lparr>Backoff = bo, MinConnectTimeout = - 5\<rparr>
            # rest)]
       \<in> set (calls (snd (InitLogs world_ok (Context 0) cfg_negative init_state))))
   \<and> \<not> isl (fst (InitLogs world_ok (Context 0) cfg_negative init_state))
   \<and> (\<exists>e q. hd (provider_processors
         (global_provider (snd (InitLogs world_ok (Context 0) cfg_negative init_state))))
       = NewBatchProcessor e [WithExportInterval (- 1), q])
   \<and> (\<exists>e i. hd (provider_processors
         (global_provider (snd (InitLogs world_ok (Context 0) cfg_negative init_state))))
       = NewBatchProcessor e [i, WithMaxQueueSize (- 7)])"
proof -
  note t = InitLogs_negative_tunables_forwarded [where w = world_ok and ctx = "Context 0"
      and cfg = cfg_negative and s = init_state, OF prod.collapse [symmetric]]
  have neg: "sint (DialTimeout cfg_negative) < 0 \<and> sint (ExportInterval cfg_negative) < 0
      \<and> sint (MaxQueueSize cfg_negative) < 0"
    by (simp add: cfg_negative_def cfg_demo_def)
  have given: "DialTimeout cfg_negative = - 5 \<and> ExportInterval cfg_negative = - 1
      \<and> MaxQueueSize cfg_negative = - 7"
    by (simp add: cfg_negative_def cfg_demo_def)
  have world: "ServiceName cfg_negative \<noteq> []
      \<and> resource_New_err world_ok (Context 0) (resource_options cfg_negative) = None
      \<and> logexp_New_err world_ok (Context 0)
          (exporter_options (fst (resolve_defaults world_ok cfg_negative init_state))) = None
      \<and> (EnableStdout cfg_negative \<longrightarrow> stdoutlog_New_err world_ok [WithPrettyPrint] = None)"
    by (simp add: cfg_negative_def cfg_demo_def world_ok_def)
  from t world have ok: "\<not> isl (fst (InitLogs world_ok (Context 0) cfg_negative init_state))"
    by blast
  from t neg world have call: "\<exists>ep bo rest. logexp_New (Context 0)
         [WithEndpoint ep,
          WithDialOption (WithBlock
            # WithConnectParams \<lparr>Backoff = bo, MinConnectTimeout = DialTimeout cfg_negative\<rparr>
            # rest)]
       \<in> set (new_calls init_state (snd (InitLogs world_ok (Context 0) cfg_negative init_state)))"
    by blast
  from t neg ok have batch:
    "(\<exists>e q. hd (provider_processors
         (global_provider (snd (InitLogs world_ok (Context 0) cfg_negative init_state))))
       = NewBatchProcessor e [WithExportInterval (ExportInterval cfg_negative), q])
     \<and> (\<exists>e i. hd (provider_processors
         (global_provider (snd (InitLogs world_ok (Context 0) cfg_negative init_state))))
       = NewBatchProcessor e [i, WithMaxQueueSize (MaxQueueSize cfg_negative)])"
    by blast
  from neg given ok call batch show ?thesis
    by (simp add: new_calls_def init_state_def)
qed

section \<open>Logger before any InitLogs\<close>

text \<open>
  Claim C5. \<open>Logger\<close> returns, for every name and in every state, the handle of the
  current global provider under that name; it has no error result. In a run of the
  process in which \<open>InitLogs\<close> was never called, that provider is the one the library
  starts with, so the handle is the default provider's handle; by the specification's
  account of that provider, \<open>Emit\<close> through the handle hands the record to no processor,
  and an emitter called with the handle leaves the default provider in place.
\<close>

theorem Logger_before_InitLogs:
  assumes "\<not> list_ex is_OpInitLogs ops"
  shows "Logger s name = provider_Logger (global_provider s) name
       \<and> Logger (run ops init_state) name = provider_Logger default_LoggerProvider name
       \<and> Logger_Emit (Logger (run ops init_state) name) ctx r = []
       \<and> global_provider (Debug w ctx (Logger (run ops init_state) name) msg attrs
            (run ops init_state)) = default_LoggerProvider
       \<and> global_provider (Info w ctx (Logger (run ops init_state) name) msg attrs
            (run ops init_state)) = default_LoggerProvider
       \<and> global_provider (Warn w ctx (Logger (run ops init_state) name) msg attrs
            (run ops init_state)) = default_LoggerProvider
       \<and> global_provider (Error w ctx (Logger (run ops init_state) name) msg attrs
            (run ops init_state)) = default_LoggerProvider"
proof -
  have "global_provider (run ops init_state) = global_provider init_state"
    using assms by (rule run_keeps_provider)
  then have default: "global_provider (run ops init_state) = default_LoggerProvider"
    by (simp add: init_state_def)
  then show ?thesis
    by (simp add: Logger_def Logger_Emit_def Debug_eq Info_eq Warn_eq Error_eq)
qed

theorem Logger_before_InitLogs_witness:
  "Logger (run [OpWarn world_ok (Context 0) (provider_Logger default_LoggerProvider ''db'') ''slow'' []]
       init_state) ''http''
     = provider_Logger default_LoggerProvider ''http''
   \<and> Logger_Emit
       (Logger (run [OpWarn world_ok (Context 0) (provider_Logger default_LoggerProvider ''db'') ''slow'' []]
          init_state) ''http'')
       (Context 1) zero_Record = []"
proof -
  have never: "\<not> list_ex is_OpInitLogs
      [OpWarn world_ok (Context 0) (provider_Logger default_LoggerProvider ''db'') ''slow'' []]"
    by simp
  from Logger_before_InitLogs [OF never] show ?thesis by blast
qed

section \<open>The processors of the provider\<close>

text \<open>
  Claim C6. When \<open>InitLogs\<close> succeeds with \<open>EnableStdout\<close> set, the provider it installs
  was given the resource, then the batch processor around the OTLP exporter, then a
  simple processor around the stdout exporter: its processors are exactly these two, in
  this order. With \<open>EnableStdout\<close> unset it was given the batch processor alone. The
  stdout exporter is only ever constructed when \<open>EnableStdout\<close> is set, with pretty
  printing, and it is constructed whenever the steps before it succeeded. If that
  construction reports an error, \<open>InitLogs\<close> returns the error wrapped as
  \<open>stdout log exporter\<close>, and installs nothing.
\<close>

theorem InitLogs_processor_list:
  assumes "InitLogs w ctx cfg s = (r, s')"
  shows "(\<not> isl r \<and> EnableStdout cfg \<longrightarrow>
            global_provider s' =
              NewLoggerProvider
                [WithResource (Resource ctx (resource_options cfg)),
                 WithProcessor (batch_processor ctx (spec_resolved w cfg)),
                 WithProcessor stdout_processor]
            \<and> provider_processors (global_provider s') =
              [NewBatchProcessor (logexp_Exporter ctx (exporter_options (spec_resolved w cfg)))
                 [WithExportInterval (spec_export_interval cfg),
                  WithMaxQueueSize (spec_max_queue_size cfg)],
               NewSimpleProcessor (stdoutlog_Exporter [WithPrettyPrint])])
       \<and> (\<not> isl r \<and> \<not> EnableStdout cfg \<longrightarrow>
            global_provider s' =
              NewLoggerProvider
                [WithResource (Resource ctx (resource_options cfg)),
                 WithProcessor (batch_processor ctx (spec_resolved w cfg))]
            \<and> provider_processors (global_provider s') =
              [NewBatchProcessor (logexp_Exporter ctx (exporter_options (spec_resolved w cfg)))
                 [WithExportInterval (spec_export_interval cfg),
                  WithMaxQueueSize (spec_max_queue_size cfg)]])
       \<and> (\<forall>opts. stdoutlog_New opts \<in> set (new_calls s s') \<longrightarrow>
            EnableStdout cfg \<and> opts = [WithPrettyPrint])
       \<and> (ServiceName cfg \<noteq> [] \<and> resource_New_err w ctx (resource_options cfg) = None
            \<and> logexp_New_err w ctx (exporter_options (spec_resolved w cfg)) = None
            \<and> EnableStdout cfg \<longrightarrow>
            stdoutlog_New [WithPrettyPrint] \<in> set (new_calls s s'))
       \<and> (\<forall>e. stdoutlog_New [WithPrettyPrint] \<in> set (new_calls s s')
                \<and> stdoutlog_New_err w [WithPrettyPrint] = Some e \<longrightarrow>
            r = Inl (fmt_Errorf_w ''stdout log exporter: '' e)
            \<and> global_provider s' = global_provider s
            \<and> \<not> list_ex is_SetLoggerProvider (new_calls s s'))"
proof -
  have with_stdout: "\<not> isl r \<and> EnableStdout cfg \<longrightarrow>
            global_provider s' =
              NewLoggerProvider
                [WithResource (Resource ctx (resource_options cfg)),
                 WithProcessor (batch_processor ctx (spec_resolved w cfg)),
                 WithProcessor stdout_processor]
            \<and> provider_processors (global_provider s') =
              [NewBatchProcessor (logexp_Exporter ctx (exporter_options (spec_resolved w cfg)))
                 [WithExportInterval (spec_export_interval cfg),
                  WithMaxQueueSize (spec_max_queue_size cfg)],
               NewSimpleProcessor (stdoutlog_Exporter [WithPrettyPrint])]"
    using InitLogs_provider [OF assms]
    by (simp add: batch_processor_resolved stdout_processor_def)
  have without_stdout: "\<not> isl r \<and> \<not> EnableStdout cfg \<longrightarrow>
            global_provider s' =
              NewLoggerProvider
                [WithResource (Resource ctx (resource_options cfg)),
                 WithProcessor (batch_processor ctx (spec_resolved w cfg))]
            \<and> provider_processors (global_provider s') =
              [NewBatchProcessor (logexp_Exporter ctx (exporter_options (spec_resolved w cfg)))
                 [WithExportInterval (spec_export_interval cfg),
                  WithMaxQueueSize (spec_max_queue_size cfg)]]"
    using InitLogs_provider [OF assms]
    by (simp add: batch_processor_resolved)
  have only_enabled: "\<forall>opts. stdoutlog_New opts \<in> set (new_calls s s') \<longrightarrow>
            EnableStdout cfg \<and> opts = [WithPrettyPrint]"
    using InitLogs_stdout_calls [OF assms] by blast
  have reached: "ServiceName cfg \<noteq> [] \<and> resource_New_err w ctx (resource_options cfg) = None
            \<and> logexp_New_err w ctx (exporter_options (spec_resolved w cfg)) = None
            \<and> EnableStdout cfg \<longrightarrow>
            stdoutlog_New [WithPrettyPrint] \<in> set (new_calls s s')"
    using InitLogs_stdout_reached [OF assms] by blast
  have aborts: "r = Inl (fmt_Errorf_w ''stdout log exporter: '' e)
            \<and> global_provider s' = global_provider s
            \<and> \<not> list_ex is_SetLoggerProvider (new_calls s s')"
    if "stdoutlog_New [WithPrettyPrint] \<in> set (new_calls s s')
        \<and> stdoutlog_New_err w [WithPrettyPrint] = Some e" for e
  proof -
    from that InitLogs_stdout_calls [OF assms, of "[WithPrettyPrint]"]
    have r: "r = Inl (fmt_Errorf_w ''stdout log exporter: '' e)" by simp
    then have "isl r" by simp
    from InitLogs_error_keeps_provider [OF assms this] r show ?thesis by simp
  qed
  from with_stdout without_stdout only_enabled reached aborts show ?thesis by blast
qed

theorem InitLogs_processor_list_witness:
  "provider_processors (global_provider (snd (InitLogs world_ok (Context 0) cfg_demo init_state)))
     = [NewBatchProcessor
          (logexp_Exporter (Context 0) (exporter_options (spec_resolved world_ok cfg_demo)))
          [WithExportInterval (2 * Second), WithMaxQueueSize 4096],
        NewSimpleProcessor (stdoutlog_Exporter [WithPrettyPrint])]
   \<and> provider_processors (global_provider
        (snd (InitLogs world_ok (Context 0) (cfg_demo\<lparr>EnableStdout := False\<rparr>) init_state)))
     = [NewBatchProcessor
          (logexp_Exporter (Context 0)
             (exporter_options (spec_resolved world_ok (cfg_demo\<lparr>EnableStdout := False\<rparr>))))
          [WithExportInterval (2 * Second), WithMaxQueueSize 4096]]
   \<and> fst (InitLogs world_no_stdout (Context 0) cfg_demo init_state)
     = Inl (fmt_Errorf_w ''stdout log exporter: '' (errors_New ''encoder''))
   \<and> global_provider (snd (InitLogs world_no_stdout (Context 0) cfg_demo init_state))
     = default_LoggerProvider"
proof -
  note on = InitLogs_processor_list [where w = world_ok and ctx = "Context 0"
      and cfg = cfg_demo and s = init_state, OF prod.collapse [symmetric]]
  note off = InitLogs_processor_list [where w = world_ok and ctx = "Context 0"
      and cfg = "cfg_demo\<lparr>EnableStdout := False\<rparr>" and s = init_state,
      OF prod.collapse [symmetric]]
  note bad = InitLogs_processor_list [where w = world_no_stdout and ctx = "Context 0"
      and cfg = cfg_demo and s = init_state, OF prod.collapse [symmetric]]
  have flags: "EnableStdout cfg_demo \<and> \<not> EnableStdout (cfg_demo\<lparr>EnableStdout := False\<rparr>)"
    by (simp add: cfg_demo_def)
  have resolved: "spec_export_interval cfg_demo = 2 * Second \<and> spec_max_queue_size cfg_demo = 4096
      \<and> spec_export_interval (cfg_demo\<lparr>EnableStdout := False\<rparr>) = 2 * Second
      \<and> spec_max_queue_size (cfg_demo\<lparr>EnableStdout := False\<rparr>) = 4096"
    by (simp add: cfg_demo_def spec_export_interval_def spec_max_queue_size_def)
  have ok_on: "\<not> isl (fst (InitLogs world_ok (Context 0) cfg_demo init_state))"
    by (simp add: run_defs)
  have ok_off: "\<not> isl (fst (InitLogs world_ok (Context 0)
      (cfg_demo\<lparr>EnableStdout := False\<rparr>) init_state))"
    by (simp add: run_defs)
  have called: "stdoutlog_New [WithPrettyPrint]
      \<in> set (new_calls init_state (snd (InitLogs world_no_stdout (Context 0) cfg_demo init_state)))
    \<and> stdoutlog_New_err world_no_stdout [WithPrettyPrint] = Some (errors_New ''encoder'')"
    by (simp add: run_defs)
  from on flags ok_on have a:
    "provider_processors (global_provider (snd (InitLogs world_ok (Context 0) cfg_demo init_state)))
     = [NewBatchProcessor
          (logexp_Exporter (Context 0) (exporter_options (spec_resolved world_ok cfg_demo)))
          [WithExportInterval (spec_export_interval cfg_demo),
           WithMaxQueueSize (spec_max_queue_size cfg_demo)],
        NewSimpleProcessor (stdoutlog_Exporter [WithPrettyPrint])]"
    by blast
  from off flags ok_off have b:
    "provider_processors (global_provider
        (snd (InitLogs world_ok (Context 0) (cfg_demo\<lparr>EnableStdout := False\<rparr>) init_state)))
     = [NewBatchProcessor
          (logexp_Exporter (Context 0)
             (exporter_options (spec_resolved world_ok (cfg_demo\<lparr>EnableStdout := False\<rparr>))))
          [WithExportInterval (spec_export_interval (cfg_demo\<lparr>EnableStdout := False\<rparr>)),
           WithMaxQueueSize (spec_max_queue_size (cfg_demo\<lparr>EnableStdout := False\<rparr>))]]"
    by blast
  from bad called have c:
    "fst (InitLogs world_no_stdout (Context 0) cfg_demo init_state)
       = Inl (fmt_Errorf_w ''stdout log exporter: '' (errors_New ''encoder''))
     \<and> global_provider (snd (InitLogs world_no_stdout (Context 0) cfg_demo init_state))
       = global_provider init_state"
    by blast
  from a b c resolved show ?thesis by (simp add: init_state_def)
qed

section \<open>Transport credentials\<close>




section \<open>Dial options and backoff\<close>

text \<open>
  Claim C8. The dial options of every \<open>logexp.New\<close> call of \<open>InitLogs\<close> start with
  \<open>WithBlock\<close> and \<open>WithConnectParams\<close> of a backoff with base delay 500 milliseconds,
  multiplier 1.6 and maximum delay 5 seconds, and of a minimum connect timeout equal to
  the resolved dial timeout; neither option occurs a second time. The call is made
  whenever the service name is accepted and the resource is built.
\<close>

theorem InitLogs_dial_options:
  assumes "InitLogs w ctx cfg s = (r, s')"
  shows "(\<forall>c opts. logexp_New c opts \<in> set (new_calls s s') \<longrightarrow>
            (\<exists>ep rest. opts =
               [WithEndpoint ep,
                WithDialOption
                  (WithBlock
                   # WithConnectParams
                       \<lparr>Backoff = \<lparr>BaseDelay = 500 * Millisecond, Multiplier = 1.6,
                                   MaxDelay = 5 * Second\<rparr>,
                        MinConnectTimeout = DialTimeout (fst (resolve_defaults w cfg s))\<rparr>
                   # rest)]
               \<and> WithBlock \<notin> set rest \<and> (\<forall>p. WithConnectParams p \<notin> set rest)))
       \<and> (ServiceName cfg \<noteq> [] \<and> resource_New_err w ctx (resource_options cfg) = None \<longrightarrow>
            (\<exists>opts. logexp_New ctx opts \<in> set (new_calls s s')))
       \<and> unat (500 * Millisecond) = 500000000 \<and> unat (5 * Second) = 5000000000"
proof -
  have shape: "\<exists>ep rest. opts =
               [WithEndpoint ep,
                WithDialOption
                  (WithBlock
                   # WithConnectParams
                       \<lparr>Backoff = \<lparr>BaseDelay = 500 * Millisecond, Multiplier = 1.6,
                                   MaxDelay = 5 * Second\<rparr>,
                        MinConnectTimeout = DialTimeout (fst (resolve_defaults w cfg s))\<rparr>
                   # rest)]
               \<and> WithBlock \<notin> set rest \<and> (\<forall>p. WithConnectParams p \<notin> set rest)"
    if "logexp_New c opts \<in> set (new_calls s s')" for c opts
    using InitLogs_exporter_calls [OF assms that]
    by (simp add: exporter_options_resolved resolve_defaults_eq spec_resolved_simps)
  have reached: "ServiceName cfg \<noteq> [] \<and> resource_New_err w ctx (resource_options cfg) = None \<longrightarrow>
            (\<exists>opts. logexp_New ctx opts \<in> set (new_calls s s'))"
    using InitLogs_exporter_reached [OF assms] by blast
  from shape reached unit_values(3,4) show ?thesis by blast
qed

theorem InitLogs_dial_options_witness:
  "\<exists>ep rest. logexp_New (Context 0)
       [WithEndpoint ep,
        WithDialOption
          (WithBlock
           # WithConnectParams
               \<lparr>Backoff = \<lparr>BaseDelay = 500 * Millisecond, Multiplier = 1.6,
                           MaxDelay = 5 * Second\<rparr>,
                MinConnectTimeout = 10 * Second\<rparr>
           # rest)]
     \<in> set (calls (snd (InitLogs world_ok (Context 0) cfg_demo init_state)))"
proof -
  note t = InitLogs_dial_options [where w = world_ok and ctx = "Context 0"
      and cfg = cfg_demo and s = init_state, OF prod.collapse [symmetric]]
  have valid: "ServiceName cfg_demo \<noteq> []
      \<and> resource_New_err world_ok (Context 0) (resource_options cfg_demo) = None"
    by (simp add: cfg_demo_def world_ok_def)
  have resolved: "DialTimeout (fst (resolve_defaults world_ok cfg_demo init_state)) = 10 * Second"
    by (simp add: run_defs)
  have fresh: "new_calls init_state s' = calls s'" for s'
    by (simp add: new_calls_def init_state_def)
  from t valid have "\<exists>ep rest. logexp_New (Context 0)
       [WithEndpoint ep,
        WithDialOption
          (WithBlock
           # WithConnectParams
               \<lparr>Backoff = \<lparr>BaseDelay = 500 * Millisecond, Multiplier = 1.6,
                           MaxDelay = 5 * Second\<rparr>,
                MinConnectTimeout = DialTimeout (fst (resolve_defaults world_ok cfg_demo init_state))\<rparr>
           # rest)]
     \<in> set (new_calls init_state (snd (InitLogs world_ok (Context 0) cfg_demo init_state)))"
    by blast
  with resolved show ?thesis by (simp add: fresh)
qed

section \<open>The resource\<close>

text \<open>
  Claim C9. Once the service name is accepted, \<open>InitLogs\<close> calls \<open>resource.New\<close> with
  the environment, host and SDK detectors and the four attributes \<open>service.name\<close>,
  \<open>service.version\<close>, \<open>deployment.environment\<close> and \<open>deployment.log_level\<close> taken from
  the configuration, and it makes no other \<open>resource.New\<close> call. If that call reports an
  error, \<open>InitLogs\<close> returns an error that wraps it under \<open>resource\<close>, the global
  provider is left as it was and \<open>SetLoggerProvider\<close> is not called. On success the
  installed provider was given this resource.
\<close>

theorem InitLogs_resource:
  assumes "InitLogs w ctx cfg s = (r, s')"
  shows "resource_options cfg =
           [WithFromEnv, WithHost, WithTelemetrySDK,
            WithAttributes
              [attribute_String ''service.name'' (ServiceName cfg),
               attribute_String ''service.version'' (ServiceVer cfg),
               attribute_String ''deployment.environment'' (Environment cfg),
               attribute_String ''deployment.log_level'' (LogLevel cfg)]]
       \<and> (ServiceName cfg \<noteq> [] \<longrightarrow>
            resource_New ctx (resource_options cfg) \<in> set (new_calls s s'))
       \<and> (\<forall>c opts. resource_New c opts \<in> set (new_calls s s') \<longrightarrow>
            c = ctx \<and> opts = resource_options cfg)
       \<and> (\<forall>e. ServiceName cfg \<noteq> [] \<and> resource_New_err w ctx (resource_options cfg) = Some e \<longrightarrow>
            r = Inl (fmt_Errorf_w ''resource: '' e)
            \<and> Unwrap (fmt_Errorf_w ''resource: '' e) = Some e
            \<and> global_provider s' = global_provider s
            \<and> \<not> list_ex is_SetLoggerProvider (new_calls s s'))
       \<and> (\<not> isl r \<longrightarrow>
            (\<exists>ps. global_provider s' =
               NewLoggerProvider (WithResource (Resource ctx (resource_options cfg)) # ps)))"
proof -
  have options: "resource_options cfg =
           [WithFromEnv, WithHost, WithTelemetrySDK,
            WithAttributes
              [attribute_String ''service.name'' (ServiceName cfg),
               attribute_String ''service.version'' (ServiceVer cfg),
               attribute_String ''deployment.environment'' (Environment cfg),
               attribute_String ''deployment.log_level'' (LogLevel cfg)]]"
    by (simp add: resource_options_def semconv_ServiceName_def semconv_ServiceVersion_def)
  have called: "ServiceName cfg \<noteq> [] \<longrightarrow>
            resource_New ctx (resource_options cfg) \<in> set (new_calls s s')"
    using InitLogs_resource_reached [OF assms] by blast
  have only: "\<forall>c opts. resource_New c opts \<in> set (new_calls s s') \<longrightarrow>
            c = ctx \<and> opts = resource_options cfg"
    using InitLogs_resource_calls [OF assms] by blast
  have fails: "r = Inl (fmt_Errorf_w ''resource: '' e)
            \<and> Unwrap (fmt_Errorf_w ''resource: '' e) = Some e
            \<and> global_provider s' = global_provider s
            \<and> \<not> list_ex is_SetLoggerProvider (new_calls s s')"
    if "ServiceName cfg \<noteq> [] \<and> resource_New_err w ctx (resource_options cfg) = Some e" for e
  proof -
    from that InitLogs_resource_reached [OF assms]
    have r: "r = Inl (fmt_Errorf_w ''resource: '' e)" by simp
    then have "isl r" by simp
    from InitLogs_error_keeps_provider [OF assms this] r show ?thesis by simp
  qed
  have installed: "\<not> isl r \<longrightarrow>
            (\<exists>ps. global_provider s' =
               NewLoggerProvider (WithResource (Resource ctx (resource_options cfg)) # ps))"
    using InitLogs_provider [OF assms] by simp
  from options called only fails installed show ?thesis by blast
qed

theorem InitLogs_resource_witness:
  "fst (InitLogs world_bad_resource (Context 0) cfg_demo init_state)
     = Inl (fmt_Errorf_w ''resource: '' (errors_New ''missing value''))
   \<and> global_provider (snd (InitLogs world_bad_resource (Context 0) cfg_demo init_state))
     = default_LoggerProvider
   \<and> resource_New (Context 0)
        [WithFromEnv, WithHost, WithTelemetrySDK,
         WithAttributes
           [attribute_String ''service.name'' ''api'',
            attribute_String ''service.version'' ''1.0'',
            attribute_String ''deployment.environment'' ''dev'',
            attribute_String ''deployment.log_level'' ''info'']]
     \<in> set (calls (snd (InitLogs world_bad_resource (Context 0) cfg_demo init_state)))
   \<and> (\<exists>ps. global_provider (snd (InitLogs world_ok (Context 0) cfg_demo init_state))
        = NewLoggerProvider (WithResource (Resource (Context 0) (resource_options cfg_demo)) # ps))"
proof -
  note bad = InitLogs_resource [where w = world_bad_resource and ctx = "Context 0"
      and cfg = cfg_demo and s = init_state, OF prod.collapse [symmetric]]
  note good = InitLogs_resource [where w = world_ok and ctx = "Context 0"
      and cfg = cfg_demo and s = init_state, OF prod.collapse [symmetric]]
  have valid: "ServiceName cfg_demo \<noteq> []
      \<and> resource_New_err world_bad_resource (Context 0) (resource_options cfg_demo)
          = Some (errors_New ''missing value'')"
    by (simp add: cfg_demo_def world_bad_resource_def world_ok_def)
  have ok: "\<not> isl (fst (InitLogs world_ok (Context 0) cfg_demo init_state))"
    by (simp add: run_defs)
  have fields: "ServiceName cfg_demo = ''api'' \<and> ServiceVer cfg_demo = ''1.0''
      \<and> Environment cfg_demo = ''dev'' \<and> LogLevel cfg_demo = ''info''"
    by (simp add: cfg_demo_def)
  have fresh: "new_calls init_state s' = calls s'" for s'
    by (simp add: new_calls_def init_state_def)
  from bad valid have a:
    "fst (InitLogs world_bad_resource (Context 0) cfg_demo init_state)
       = Inl (fmt_Errorf_w ''resource: '' (errors_New ''missing value''))
     \<and> global_provider (snd (InitLogs world_bad_resource (Context 0) cfg_demo init_state))
       = global_provider init_state
     \<and> resource_New (Context 0) (resource_options cfg_demo)
       \<in> set (new_calls init_state (snd (InitLogs world_bad_resource (Context 0) cfg_demo init_state)))"
    by blast
  from bad have b: "resource_options cfg_demo =
           [WithFromEnv, WithHost, WithTelemetrySDK,
            WithAttributes
              [attribute_String ''service.name'' (ServiceName cfg_demo),
               attribute_String ''service.version'' (ServiceVer cfg_demo),
               attribute_String ''deployment.environment'' (Environment cfg_demo),
               attribute_String ''deployment.log_level'' (LogLevel cfg_demo)]]"
    by (rule conjunct1)
  from good ok have c:
    "\<exists>ps. global_provider (snd (InitLogs world_ok (Context 0) cfg_demo init_state))
        = NewLoggerProvider (WithResource (Resource (Context 0) (resource_options cfg_demo)) # ps)"
    by blast
  from a b c fields show ?thesis by (simp add: new_calls_def init_state_def)
qed

end
